theory Spec2Isabelle
  imports Main
begin

section \<open>Strings and formatting\<close>

text \<open>
  Go strings and byte slices are sequences of bytes; they are modelled as \<open>string\<close>
  (lists of 8-bit characters). The few functions of the Go standard library that the
  client uses on strings are written out below, for the inputs the client gives them.
\<close>

text \<open>\<^verbatim>\<open>strings.HasPrefix(s, prefix)\<close>:
  \<^verbatim>\<open>len(s) >= len(prefix) && s[:len(prefix)] == prefix\<close>.\<close>

definition HasPrefix :: "string \<Rightarrow> string \<Rightarrow> bool" where
  "HasPrefix s pre = (length s \<ge> length pre \<and> take (length pre) s = pre)"

text \<open>\<^verbatim>\<open>strings.Replace(s, old, new, -1)\<close>: every non-overlapping occurrence of
  \<open>old\<close>, found from the left, is replaced by \<open>new\<close>. The client only calls it with the
  non-empty patterns \<^verbatim>\<open>"query"\<close> and \<^verbatim>\<open>"v"\<close>; for an empty pattern (where Go inserts
  \<open>new\<close> around every rune) this model returns \<open>s\<close> unchanged.\<close>

function strings_Replace :: "string \<Rightarrow> string \<Rightarrow> string \<Rightarrow> string" where
  "strings_Replace [] old new = []"
| "strings_Replace (c # s) old new =
     (if old \<noteq> [] \<and> HasPrefix (c # s) old
      then new @ strings_Replace (drop (length old) (c # s)) old new
      else c # strings_Replace s old new)"
  by pat_completeness auto
termination
  by (relation "measure (\<lambda>(s, old, new). length s)") auto

text \<open>Decimal text of an integer, as \<^verbatim>\<open>%v\<close> prints a Go \<^verbatim>\<open>int\<close>.\<close>

definition digit_char :: "nat \<Rightarrow> char" where
  "digit_char d = ''0123456789'' ! (d mod 10)"

fun nat_digits :: "nat \<Rightarrow> string" where
  "nat_digits n = (if n < 10 then [digit_char n] else nat_digits (n div 10) @ [digit_char n])"

declare nat_digits.simps [simp del]

definition itoa :: "int \<Rightarrow> string" where
  "itoa i = (if i < 0 then CHR ''-'' # nat_digits (nat (- i)) else nat_digits (nat i))"

text \<open>
  \<^verbatim>\<open>fmt.Sprintf\<close>, for the two verbs the client uses: \<^verbatim>\<open>%s\<close> and \<^verbatim>\<open>%v\<close>, with
  string and int operands. A verb without an operand prints \<^verbatim>\<open>%!v(MISSING)\<close>, \<^verbatim>\<open>%s\<close>
  on an int prints \<^verbatim>\<open>%!s(int=5)\<close>, and operands left over are reported at the end, as
  Go does. Any other text of the format is copied.
\<close>

datatype fmt_arg = ArgS string | ArgI int

fun fmt_verb :: "char \<Rightarrow> fmt_arg \<Rightarrow> string" where
  "fmt_verb v (ArgS s) = s"
| "fmt_verb v (ArgI i) =
     (if v = CHR ''s'' then ''%!s(int='' @ itoa i @ '')'' else itoa i)"

fun fmt_extra :: "fmt_arg list \<Rightarrow> string" where
  "fmt_extra [] = []"
| "fmt_extra [ArgS s] = ''string='' @ s"
| "fmt_extra [ArgI i] = ''int='' @ itoa i"
| "fmt_extra (a # b # as) = fmt_extra [a] @ '', '' @ fmt_extra (b # as)"

fun Sprintf :: "string \<Rightarrow> fmt_arg list \<Rightarrow> string" where
  "Sprintf [] args = (if args = [] then [] else ''%!(EXTRA '' @ fmt_extra args @ '')'')"
| "Sprintf [c] args = c # Sprintf [] args"
| "Sprintf (c # v # fs) args =
     (if c = CHR ''%'' \<and> (v = CHR ''s'' \<or> v = CHR ''v'')
      then (case args of
              [] \<Rightarrow> ''%!'' @ [v] @ ''(MISSING)'' @ Sprintf fs []
            | a # as \<Rightarrow> fmt_verb v a @ Sprintf fs as)
      else c # Sprintf (v # fs) args)"

text \<open>
  \<^verbatim>\<open>url.QueryEscape\<close>: letters, digits and \<^verbatim>\<open>- _ . ~\<close> are kept, a space becomes
  \<^verbatim>\<open>+\<close>, and every other byte becomes \<^verbatim>\<open>%XX\<close> in upper-case hexadecimal.
\<close>

definition shouldEscape :: "char \<Rightarrow> bool" where
  "shouldEscape c =
     (c \<notin> set ''abcdefghijklmnopqrstuvwxyzABCDEFGHIJKLMNOPQRSTUVWXYZ0123456789-_.~'')"

definition upperhex :: "nat \<Rightarrow> char" where
  "upperhex d = ''0123456789ABCDEF'' ! (d mod 16)"

fun QueryEscape :: "string \<Rightarrow> string" where
  "QueryEscape [] = []"
| "QueryEscape (c # s) =
     (if c = CHR '' '' then CHR ''+'' # QueryEscape s
      else if shouldEscape c
      then CHR ''%'' # upperhex (of_char c div 16) # upperhex (of_char c) # QueryEscape s
      else c # QueryEscape s)"

declare QueryEscape.simps [simp del]

section \<open>Data model\<close>

subsection \<open>Errors (errorHelpers.go)\<close>

text \<open>The array element of \<^verbatim>\<open>jsonError\<close>, and \<^verbatim>\<open>xmlError\<close>.\<close>

record jsonErrorItem =
  je_Message :: string
  je_ErrorCode :: string

type_synonym jsonError = "jsonErrorItem list"

record xmlError =
  xe_Message :: string
  xe_ErrorCode :: string

record SalesforceError =
  Message :: string
  HttpCode :: int
  ErrorCode :: string
  ErrorMessage :: string

text \<open>
  Values of Go's \<^verbatim>\<open>error\<close> interface: the package's sentinel errors, a
  \<^verbatim>\<open>SalesforceError\<close>, the result of \<^verbatim>\<open>errors.Join\<close>, and errors made by the
  libraries below the client (transport, decoders, readers), which are opaque here and
  told apart by a text. A nil error is \<open>None\<close> of \<open>goerror option\<close>.
\<close>

datatype goerror =
    ErrFailure
  | ErrAuthentication
  | ErrNoTypeIdClientOrId
  | ErrOidNotFound
  | SFError SalesforceError
  | Joined "goerror list"
  | LibError string

text \<open>\<^verbatim>\<open>errors.Join\<close> discards nil operands and returns nil when none is left.\<close>

definition errors_Join :: "goerror option list \<Rightarrow> goerror option" where
  "errors_Join errs =
     (let es = List.map_filter id errs in if es = [] then None else Some (Joined es))"

text \<open>\<^verbatim>\<open>SalesforceError.Error()\<close>; the other errors print a text of their own, which
  no function of the client reads.\<close>

definition Error :: "SalesforceError \<Rightarrow> string" where
  "Error err = Message err"

text \<open>A call either returns or ends in a run-time panic.\<close>

datatype panic = IndexOutOfRange | NilPointerDereference

datatype 'a outcome = Returned 'a | Panicked panic

subsection \<open>Client, records and results\<close>

text \<open>The fields of \<^verbatim>\<open>Client\<close> (the anonymous struct \<^verbatim>\<open>user\<close> flattened). The
  \<^verbatim>\<open>httpClient\<close> is the transport of the environment below.\<close>

record Client =
  sessionID :: string
  user_id :: string
  user_name :: string
  user_fullName :: string
  user_email :: string
  clientID :: string
  apiVersion :: string
  baseURL :: string
  instanceURL :: string
  useToolingAPI :: bool

text \<open>A \<^verbatim>\<open>*Client\<close> is an address; the store maps every address to the client
  that lives there. A method called on a nil \<^verbatim>\<open>*Client\<close> is not modelled.\<close>

type_synonym client_ref = nat

text \<open>A decoded JSON value (Go's \<^verbatim>\<open>interface{}\<close> after \<^verbatim>\<open>json.Unmarshal\<close>).\<close>

datatype jvalue =
    JNull
  | JBool bool
  | JNumber string
  | JString string
  | JArray "jvalue list"
  | JObject "(string \<times> jvalue) list"

text \<open>
  Modelled from the spec: \<^verbatim>\<open>SObject\<close> and its methods (sobject.go) are not among the
  sources; only their tests are. The spec describes a Record as a mapping from field
  names to values that also holds the binding to the owning client, the type under
  \<^verbatim>\<open>attributes\<close> and, under its identity key, the remote identifier. The record
  below holds those three and the remaining fields.
\<close>

record SObject =
  sobjClient :: "client_ref option"
  sobjType :: string
  sobjID :: string
  sobjFields :: "(string \<times> jvalue) list"

text \<open>Modelled from the spec: \<^verbatim>\<open>setClient\<close> (sobject.go) binds the record to a
  client and changes nothing else.\<close>

definition setClient :: "client_ref \<Rightarrow> SObject \<Rightarrow> SObject" where
  "setClient p obj = obj\<lparr>sobjClient := Some p\<rparr>"

record QueryResult =
  TotalSize :: int
  Done :: bool
  NextRecordsURL :: string
  Records :: "SObject list"

record ExecuteAnonymousResult =
  Line :: int
  Column :: int
  Compiled :: bool
  Success :: bool
  CompileProblem :: jvalue
  ExceptionStackTrace :: jvalue
  ExceptionMessage :: jvalue

subsection \<open>HTTP exchange and environment\<close>

record request =
  req_method :: string
  req_url :: string
  req_header :: "(string \<times> string) list"
  req_body :: "string option"

text \<open>A response: its status and its body stream, which yields \<open>Body\<close> and then ends
  cleanly (\<open>BodyErr = None\<close>) or with a read error.\<close>

record response =
  StatusCode :: int
  Body :: string
  BodyErr :: "goerror option"

text \<open>What a call does to the network: it builds a request
  (\<^verbatim>\<open>http.NewRequestWithContext\<close>) and it sends one (\<^verbatim>\<open>httpClient.Do\<close>).\<close>

datatype event = EvNewRequest string string | EvDo request

text \<open>
  The libraries the client calls, as parameters: the JSON and XML decoders at the types
  the client decodes into (\<open>None\<close> or \<open>Inl\<close>: the decoder returned an error), the
  validation done by \<^verbatim>\<open>http.NewRequestWithContext\<close> on method and URL, and the
  transport, whose answer may depend on everything done before.
\<close>

record env =
  json_Unmarshal_jsonError :: "string \<Rightarrow> jsonError option"
  xml_Unmarshal_xmlError :: "string \<Rightarrow> xmlError option"
  json_Unmarshal_QueryResult :: "string \<Rightarrow> goerror + QueryResult"
  json_Unmarshal_ExecuteAnonymousResult :: "string \<Rightarrow> goerror + ExecuteAnonymousResult"
  http_NewRequestWithContext :: "string \<Rightarrow> string \<Rightarrow> goerror option"
  httpClient_Do :: "event list \<Rightarrow> request \<Rightarrow> response option \<times> goerror option"

text \<open>The state the calls run in: the clients in the store and the network events so
  far.\<close>

record world =
  clients :: "client_ref \<Rightarrow> Client"
  events :: "event list"

section \<open>Error unification (errorHelpers.go)\<close>

definition logPrefix :: string where
  "logPrefix = ''[simpleforce]''"

text \<open>\<^verbatim>\<open>ParseSalesforceError\<close>. The index \<^verbatim>\<open>jsonError[0]\<close> panics on an empty slice.\<close>

definition ParseSalesforceError :: "env \<Rightarrow> int \<Rightarrow> string \<Rightarrow> goerror outcome" where
  "ParseSalesforceError e statusCode responseBody =
     (case json_Unmarshal_jsonError e responseBody of
        Some jsonError \<Rightarrow>
          (case jsonError of
             [] \<Rightarrow> Panicked IndexOutOfRange
           | j0 # _ \<Rightarrow>
               Returned (SFError \<lparr>
                 Message = Sprintf
                   (logPrefix @ '' Error. http code: %v Error Message:  %v Error Code: %v'')
                   [ArgI statusCode, ArgS (je_Message j0), ArgS (je_ErrorCode j0)],
                 HttpCode = statusCode,
                 ErrorCode = je_ErrorCode j0,
                 ErrorMessage = je_Message j0 \<rparr>))
      | None \<Rightarrow>
          (case xml_Unmarshal_xmlError e responseBody of
             Some xmlError \<Rightarrow>
               Returned (SFError \<lparr>
                 Message = Sprintf
                   (logPrefix @ '' Error. http code: %v Error Message:  %v Error Code: %v'')
                   [ArgI statusCode, ArgS (xe_Message xmlError), ArgS (xe_ErrorCode xmlError)],
                 HttpCode = statusCode,
                 ErrorCode = xe_ErrorCode xmlError,
                 ErrorMessage = xe_Message xmlError \<rparr>)
           | None \<Rightarrow>
               Returned (SFError \<lparr>
                 Message = responseBody,
                 HttpCode = statusCode,
                 ErrorCode = [],
                 ErrorMessage = [] \<rparr>)))"

text \<open>\<^verbatim>\<open>parseUhttpError\<close> (the logging left out).\<close>

definition parseUhttpError ::
  "env \<Rightarrow> response option \<Rightarrow> goerror option \<Rightarrow> goerror option outcome" where
  "parseUhttpError e resp errHttp =
     (case resp of
        None \<Rightarrow> Returned errHttp
      | Some r \<Rightarrow>
          if StatusCode r < 200 \<or> StatusCode r > 299
          then (case BodyErr r of
                  Some err \<Rightarrow> Returned (errors_Join [errHttp, Some err])
                | None \<Rightarrow>
                    (case ParseSalesforceError e (StatusCode r) (Body r) of
                       Panicked p \<Rightarrow> Panicked p
                     | Returned sfErr \<Rightarrow> Returned (errors_Join [errHttp, Some sfErr])))
          else Returned errHttp)"

section \<open>The client\<close>

text \<open>\<^verbatim>\<open>isLoggedIn\<close>.\<close>

definition isLoggedIn :: "Client \<Rightarrow> bool" where
  "isLoggedIn client = (sessionID client \<noteq> [])"

text \<open>
  \<^verbatim>\<open>httpRequest\<close>. A transport that returns neither a response nor an error makes
  \<^verbatim>\<open>resp.Body\<close> a nil dereference. \<^verbatim>\<open>io.ReadAll\<close> returns what it read together
  with the read error, and so does \<^verbatim>\<open>httpRequest\<close>.
\<close>

definition httpRequest ::
  "env \<Rightarrow> client_ref \<Rightarrow> string \<Rightarrow> string \<Rightarrow> string option \<Rightarrow> world
     \<Rightarrow> (string option \<times> goerror option) outcome \<times> world" where
  "httpRequest e p method u body w =
     (let w1 = w\<lparr>events := events w @ [EvNewRequest method u]\<rparr> in
      case http_NewRequestWithContext e method u of
        Some err \<Rightarrow> (Returned (None, Some err), w1)
      | None \<Rightarrow>
          (let req = \<lparr> req_method = method, req_url = u,
                       req_header =
                         [(''Authorization'',
                             Sprintf ''Bearer %s'' [ArgS (sessionID (clients w p))]),
                          (''Content-Type'', ''application/json'')],
                       req_body = body \<rparr>;
               (resp, err) = httpClient_Do e (events w1) req;
               w2 = w1\<lparr>events := events w1 @ [EvDo req]\<rparr>
           in case err of
                Some er \<Rightarrow>
                  (case parseUhttpError e resp (Some er) of
                     Panicked k \<Rightarrow> (Panicked k, w2)
                   | Returned r \<Rightarrow> (Returned (None, r), w2))
              | None \<Rightarrow>
                  (case resp of
                     None \<Rightarrow> (Panicked NilPointerDereference, w2)
                   | Some r \<Rightarrow>
                       if StatusCode r < 200 \<or> StatusCode r > 299
                       then (case parseUhttpError e resp None of
                               Panicked k \<Rightarrow> (Panicked k, w2)
                             | Returned er \<Rightarrow> (Returned (None, er), w2))
                       else (Returned (Some (Body r), BodyErr r), w2))))"

text \<open>The bytes of a \<^verbatim>\<open>[]byte\<close> that may be nil.\<close>

definition bytes_of :: "string option \<Rightarrow> string" where
  "bytes_of data = (case data of None \<Rightarrow> [] | Some d \<Rightarrow> d)"

text \<open>The loop \<^verbatim>\<open>for idx := range result.Records\<close> of \<^verbatim>\<open>Query\<close>, from index
  \<open>idx\<close> on.\<close>

function setClient_loop :: "client_ref \<Rightarrow> nat \<Rightarrow> SObject list \<Rightarrow> SObject list" where
  "setClient_loop p idx recs =
     (if idx < length recs
      then setClient_loop p (Suc idx) (recs[idx := setClient p (recs ! idx)])
      else recs)"
  by pat_completeness auto
termination
  by (relation "measure (\<lambda>(p, idx, recs). length recs - idx)") auto

declare setClient_loop.simps [simp del]

text \<open>\<^verbatim>\<open>Query\<close>.\<close>

definition Query ::
  "env \<Rightarrow> client_ref \<Rightarrow> string \<Rightarrow> world
     \<Rightarrow> (QueryResult option \<times> goerror option) outcome \<times> world" where
  "Query e p q w =
     (let client = clients w p in
      if \<not> isLoggedIn client then (Returned (None, Some ErrAuthentication), w)
      else
        let u =
          (if HasPrefix q ''/services/data''
           then Sprintf ''%s%s'' [ArgS (instanceURL client), ArgS q]
           else
             let formatString = ''%s/services/data/v%s/query?q=%s'';
                 baseURL = instanceURL client;
                 formatString =
                   (if useToolingAPI client
                    then strings_Replace formatString ''query'' ''tooling/query''
                    else formatString)
             in Sprintf formatString
                  [ArgS baseURL, ArgS (apiVersion client), ArgS (QueryEscape q)])
        in case httpRequest e p ''GET'' u None w of
             (Panicked k, w') \<Rightarrow> (Panicked k, w')
           | (Returned (data, err), w') \<Rightarrow>
               (case err of
                  Some er \<Rightarrow> (Returned (None, Some er), w')
                | None \<Rightarrow>
                    (case json_Unmarshal_QueryResult e (bytes_of data) of
                       Inl er \<Rightarrow> (Returned (None, Some er), w')
                     | Inr result \<Rightarrow>
                         (Returned
                            (Some (result\<lparr>Records := setClient_loop p 0 (Records result)\<rparr>),
                             None), w'))))"

text \<open>\<^verbatim>\<open>ApexREST\<close>.\<close>

definition ApexREST ::
  "env \<Rightarrow> client_ref \<Rightarrow> string \<Rightarrow> string \<Rightarrow> string option \<Rightarrow> world
     \<Rightarrow> (string option \<times> goerror option) outcome \<times> world" where
  "ApexREST e p method path requestBody w =
     (let client = clients w p in
      if \<not> isLoggedIn client then (Returned (None, Some ErrAuthentication), w)
      else
        let u = Sprintf ''%s/%s'' [ArgS (instanceURL client), ArgS path]
        in case httpRequest e p method u requestBody w of
             (Panicked k, w') \<Rightarrow> (Panicked k, w')
           | (Returned (data, err), w') \<Rightarrow>
               (case err of
                  Some er \<Rightarrow> (Returned (None, Some er), w')
                | None \<Rightarrow> (Returned (data, None), w')))"

text \<open>\<^verbatim>\<open>Tooling\<close>, \<^verbatim>\<open>UnTooling\<close> and \<^verbatim>\<open>ExecuteAnonymous\<close> (tooling.go).\<close>

definition Tooling :: "client_ref \<Rightarrow> world \<Rightarrow> client_ref \<times> world" where
  "Tooling p w = (p, w\<lparr>clients := (clients w)(p := (clients w p)\<lparr>useToolingAPI := True\<rparr>)\<rparr>)"

definition UnTooling :: "client_ref \<Rightarrow> world \<Rightarrow> world" where
  "UnTooling p w = w\<lparr>clients := (clients w)(p := (clients w p)\<lparr>useToolingAPI := False\<rparr>)\<rparr>"

definition ExecuteAnonymous ::
  "env \<Rightarrow> client_ref \<Rightarrow> string \<Rightarrow> world
     \<Rightarrow> (ExecuteAnonymousResult option \<times> goerror option) outcome \<times> world" where
  "ExecuteAnonymous e p apexBody w =
     (let client = clients w p in
      if \<not> isLoggedIn client then (Returned (None, Some ErrAuthentication), w)
      else
        let formatString =
              ''%s/services/data/v%s/tooling/executeAnonymous/?anonymousBody=%s'';
            baseURL = instanceURL client;
            endpoint = Sprintf formatString
              [ArgS baseURL, ArgS (apiVersion client), ArgS (QueryEscape apexBody)]
        in case httpRequest e p ''GET'' endpoint None w of
             (Panicked k, w') \<Rightarrow> (Panicked k, w')
           | (Returned (data, err), w') \<Rightarrow>
               (case err of
                  Some er \<Rightarrow> (Returned (None, Some er), w')
                | None \<Rightarrow>
                    (case json_Unmarshal_ExecuteAnonymousResult e (bytes_of data) of
                       Inl er \<Rightarrow> (Returned (None, Some er), w')
                     | Inr result \<Rightarrow> (Returned (Some result, None), w'))))"

text \<open>\<^verbatim>\<open>makeURL\<close>: it stores the API version without any \<^verbatim>\<open>v\<close> back into the
  client before it builds the URL.\<close>

definition makeURL :: "client_ref \<Rightarrow> string \<Rightarrow> world \<Rightarrow> string \<times> world" where
  "makeURL p req w =
     (let client = (clients w p)\<lparr>apiVersion := strings_Replace (apiVersion (clients w p)) ''v'' []\<rparr>;
          retURL = Sprintf ''%s/services/data/v%s/%s''
                     [ArgS (instanceURL client), ArgS (apiVersion client), ArgS req]
      in (retURL, w\<lparr>clients := (clients w)(p := client)\<rparr>))"

text \<open>\<^verbatim>\<open>SetSidLoc\<close>, the login without \<^verbatim>\<open>LoginPassword\<close>.\<close>

definition SetSidLoc :: "client_ref \<Rightarrow> string \<Rightarrow> string \<Rightarrow> world \<Rightarrow> world" where
  "SetSidLoc p sid loc w =
     w\<lparr>clients := (clients w)(p := (clients w p)\<lparr>sessionID := sid, instanceURL := loc\<rparr>)\<rparr>"

section \<open>Record operations\<close>

text \<open>
  Modelled from the spec: the CRUD methods of \<^verbatim>\<open>SObject\<close> (\<^verbatim>\<open>Get\<close>,
  \<^verbatim>\<open>Create\<close>, \<^verbatim>\<open>Update\<close>, \<^verbatim>\<open>Upsert\<close>, \<^verbatim>\<open>Delete\<close> in sobject.go) are not
  among the sources; only their tests are. The spec (4.2): every operation requires a
  bound client and a non-empty type; get, update and delete also require a remote
  identifier, passed explicitly or present on the record; a violated precondition fails
  at once and locally with \<^verbatim>\<open>ErrNoTypeIdClientOrId\<close>, before any network exchange.
  What an operation does once its precondition holds is the parameter \<open>exchange\<close>.
\<close>

datatype crud_op = Get | Create | Update | Upsert | Delete

text \<open>Modelled from the spec: the identifier an operation works on, the explicit
  argument before the one stored on the record.\<close>

definition crud_id :: "SObject \<Rightarrow> string option \<Rightarrow> string" where
  "crud_id obj ident = (case ident of Some i \<Rightarrow> i | None \<Rightarrow> sobjID obj)"

text \<open>Modelled from the spec: get, update and delete are the operations that
  require a remote identifier.\<close>

definition needs_id :: "crud_op \<Rightarrow> bool" where
  "needs_id opr = (opr = Get \<or> opr = Update \<or> opr = Delete)"

text \<open>Modelled from the spec: the precondition of a CRUD operation, a bound client, a
  non-empty type and, where one is required, a non-empty identifier.\<close>

definition crud_ready :: "crud_op \<Rightarrow> SObject \<Rightarrow> string option \<Rightarrow> bool" where
  "crud_ready opr obj ident =
     (sobjClient obj \<noteq> None \<and> sobjType obj \<noteq> [] \<and>
      (if needs_id opr then crud_id obj ident \<noteq> [] else True))"

text \<open>Modelled from the spec: a CRUD operation, with its result (the Record, nil as
  \<open>None\<close>, and the error) and the state it leaves.\<close>

definition crud ::
  "(crud_op \<Rightarrow> SObject \<Rightarrow> string option \<Rightarrow> world
      \<Rightarrow> (SObject option \<times> goerror option) outcome \<times> world)
     \<Rightarrow> crud_op \<Rightarrow> SObject \<Rightarrow> string option \<Rightarrow> world
     \<Rightarrow> (SObject option \<times> goerror option) outcome \<times> world" where
  "crud exchange opr obj ident w =
     (if crud_ready opr obj ident then exchange opr obj ident w
      else (Returned (None, Some ErrNoTypeIdClientOrId), w))"

section \<open>Sequences of calls\<close>

text \<open>A caller's calls on clients of the store, run one after the other; a result is
  dropped, the state is kept.\<close>

datatype call =
    CallQuery client_ref string
  | CallApexREST client_ref string string "string option"
  | CallExecuteAnonymous client_ref string
  | CallTooling client_ref
  | CallUnTooling client_ref
  | CallMakeURL client_ref string

fun run_call :: "env \<Rightarrow> call \<Rightarrow> world \<Rightarrow> world" where
  "run_call e (CallQuery p q) w = snd (Query e p q w)"
| "run_call e (CallApexREST p m path b) w = snd (ApexREST e p m path b w)"
| "run_call e (CallExecuteAnonymous p a) w = snd (ExecuteAnonymous e p a w)"
| "run_call e (CallTooling p) w = snd (Tooling p w)"
| "run_call e (CallUnTooling p) w = UnTooling p w"
| "run_call e (CallMakeURL p r) w = snd (makeURL p r w)"

fun run_calls :: "env \<Rightarrow> call list \<Rightarrow> world \<Rightarrow> world" where
  "run_calls e [] w = w"
| "run_calls e (c # cs) w = run_calls e cs (run_call e c w)"

section \<open>A sample environment\<close>

text \<open>
  Concrete inputs for the closed theorems below: a logged-in client, three response
  bodies, and an environment whose decoders and transport answer on those bodies as
  the Go libraries and a Salesforce server do (\<^verbatim>\<open>json.Unmarshal\<close> accepts
  \<^verbatim>\<open>[]\<close> and \<^verbatim>\<open>null\<close> for a slice and leaves it empty). On any other body the
  sample decoders report an error.
\<close>

definition sample_client :: Client where
  "sample_client =
     \<lparr> sessionID = ''00D5g000004!AQ0AQH'', user_id = ''0055g00000A'',
       user_name = ''admin@example.com'', user_fullName = ''Admin'',
       user_email = ''admin@example.com'', clientID = ''simpleforce'',
       apiVersion = ''54.0'', baseURL = ''https://login.salesforce.com'',
       instanceURL = ''https://na1.salesforce.com'', useToolingAPI = False \<rparr>"

definition sample_world :: world where
  "sample_world = \<lparr> clients = (\<lambda>p. sample_client), events = [] \<rparr>"

definition sample_json_body :: string where
  \<open>sample_json_body = ''[{"message":"X","errorCode":"Y"}]''\<close>

definition sample_xml_body :: string where
  "sample_xml_body =
     ''<Envelope><Body><Fault><faultcode>INVALID_LOGIN</faultcode><faultstring>Invalid username</faultstring></Fault></Body></Envelope>''"

definition sample_query_body :: string where
  \<open>sample_query_body =
     ''{"totalSize":2,"done":true,"records":[{"attributes":{"type":"Case"},"Id":"500A"},{"attributes":{"type":"Case"},"Id":"500B"}]}''\<close>

definition sample_records :: "SObject list" where
  "sample_records =
     [\<lparr> sobjClient = None, sobjType = ''Case'', sobjID = ''500A'', sobjFields = [] \<rparr>,
      \<lparr> sobjClient = None, sobjType = ''Case'', sobjID = ''500B'', sobjFields = [] \<rparr>]"

definition sample_env :: env where
  "sample_env =
     \<lparr> json_Unmarshal_jsonError =
         (\<lambda>b. if b = ''[]'' \<or> b = ''null'' then Some []
              else if b = sample_json_body
              then Some [\<lparr> je_Message = ''X'', je_ErrorCode = ''Y'' \<rparr>]
              else None),
       xml_Unmarshal_xmlError =
         (\<lambda>b. if b = sample_xml_body
              then Some \<lparr> xe_Message = ''Invalid username'', xe_ErrorCode = ''INVALID_LOGIN'' \<rparr>
              else None),
       json_Unmarshal_QueryResult =
         (\<lambda>b. if b = sample_query_body
              then Inr \<lparr> TotalSize = 2, Done = True, NextRecordsURL = [],
                         Records = sample_records \<rparr>
              else Inl (LibError ''unexpected end of JSON input'')),
       json_Unmarshal_ExecuteAnonymousResult =
         (\<lambda>b. Inl (LibError ''unexpected end of JSON input'')),
       http_NewRequestWithContext = (\<lambda>m u. None),
       httpClient_Do =
         (\<lambda>evs req. (Some \<lparr> StatusCode = 200, Body = sample_query_body, BodyErr = None \<rparr>,
                      None)) \<rparr>"

section \<open>Lemmas on formatting\<close>

lemma Sprintf_query:
  "Sprintf ''%s/services/data/v%s/query?q=%s'' [ArgS a, ArgS b, ArgS c]
     = a @ ''/services/data/v'' @ b @ ''/query?q='' @ c"
  by simp

lemma Replace_query:
  "strings_Replace ''%s/services/data/v%s/query?q=%s'' ''query'' ''tooling/query''
     = ''%s/services/data/v%s/tooling/query?q=%s''"
  by (simp add: HasPrefix_def)

lemma Sprintf_tooling:
  "Sprintf ''%s/services/data/v%s/tooling/query?q=%s'' [ArgS a, ArgS b, ArgS c]
     = a @ ''/services/data/v'' @ b @ ''/tooling/query?q='' @ c"
  by simp

lemma Sprintf_cont: "Sprintf ''%s%s'' [ArgS a, ArgS b] = a @ b"
  by simp

lemma Sprintf_bearer: "Sprintf ''Bearer %s'' [ArgS a] = ''Bearer '' @ a"
  by simp

lemma Sprintf_error_format:
  "Sprintf (logPrefix @ '' Error. http code: %v Error Message:  %v Error Code: %v'')
     [ArgI n, ArgS a, ArgS b]
   = ''[simpleforce] Error. http code: '' @ itoa n @ '' Error Message:  '' @ a @
     '' Error Code: '' @ b"
  by (simp add: logPrefix_def)

lemma itoa_400: "itoa 400 = ''400''"
  by code_simp

lemma Replace_v: "strings_Replace s ''v'' [] = filter (\<lambda>c. c \<noteq> CHR ''v'') s"
  by (induction s) (auto simp: HasPrefix_def)

lemma QueryEscape_sample: "QueryEscape ''SELECT Id FROM Case'' = ''SELECT+Id+FROM+Case''"
  by code_simp

section \<open>Lemmas on the HTTP exchange\<close>

text \<open>The state after \<^verbatim>\<open>httpRequest\<close>: the clients are untouched, one request was
  built and, when it could be built, sent.\<close>

lemma httpRequest_world:
  "snd (httpRequest e p m u b w) =
     w\<lparr>events := events w @ EvNewRequest m u #
       (case http_NewRequestWithContext e m u of
          Some err \<Rightarrow> []
        | None \<Rightarrow> [EvDo \<lparr> req_method = m, req_url = u,
                     req_header = [(''Authorization'', ''Bearer '' @ sessionID (clients w p)),
                                   (''Content-Type'', ''application/json'')],
                     req_body = b \<rparr>])\<rparr>"
proof (cases "http_NewRequestWithContext e m u")
  case (Some err)
  then show ?thesis by (simp add: httpRequest_def)
next
  case None
  then show ?thesis
    unfolding httpRequest_def Let_def Sprintf_bearer
    by (simp split: option.splits prod.splits outcome.splits)
qed

text \<open>What the callers of \<^verbatim>\<open>httpRequest\<close> do with its result keeps the state.\<close>

lemma snd_after_exchange:
  "snd (case r of
          (Panicked k, w') \<Rightarrow> (Panicked k, w')
        | (Returned (data, err), w') \<Rightarrow>
            (case err of
               Some er \<Rightarrow> (Returned (f er), w')
             | None \<Rightarrow>
                 (case g data of
                    Inl er \<Rightarrow> (Returned (f er), w')
                  | Inr result \<Rightarrow> (Returned (h result), w')))) = snd r"
  by (cases r) (simp split: outcome.splits option.splits sum.splits prod.splits)

lemma exchange_world:
  "snd (case r of
          (Panicked k, w') \<Rightarrow> (Panicked k, w')
        | (Returned (data, err), w') \<Rightarrow>
            (case err of
               Some er \<Rightarrow> (Returned (f er), w')
             | None \<Rightarrow> (Returned (h data), w'))) = snd r"
  by (cases r) (simp split: outcome.splits option.splits prod.splits)

lemma result_after_exchange:
  assumes "(case r of
          (Panicked k, w') \<Rightarrow> (Panicked k, w')
        | (Returned (data, err), w') \<Rightarrow>
            (case err of
               Some er \<Rightarrow> (Returned (None, Some er), w')
             | None \<Rightarrow>
                 (case g data of
                    Inl er \<Rightarrow> (Returned (None, Some er), w')
                  | Inr result \<Rightarrow> (Returned (Some (h result), None), w'))))
       = (Returned (Some x, None), w1)"
  shows "\<exists>data decoded. r = (Returned (data, None), w1) \<and> g data = Inr decoded \<and> x = h decoded"
  using assms
  by (cases r) (auto split: outcome.splits option.splits sum.splits prod.splits)

section \<open>Lemmas on Query\<close>

text \<open>The loop over the records is \<open>map\<close>.\<close>

lemma setClient_loop_eq:
  "idx \<le> length recs \<Longrightarrow>
     setClient_loop p idx recs = take idx recs @ map (setClient p) (drop idx recs)"
proof (induction p idx recs rule: setClient_loop.induct)
  case (1 p idx recs)
  show ?case
  proof (cases "idx < length recs")
    case True
    then have "setClient_loop p idx recs =
        setClient_loop p (Suc idx) (recs[idx := setClient p (recs ! idx)])"
      by (simp add: setClient_loop.simps[of p idx recs])
    also have "\<dots> = take (Suc idx) (recs[idx := setClient p (recs ! idx)]) @
        map (setClient p) (drop (Suc idx) (recs[idx := setClient p (recs ! idx)]))"
      using 1(1)[OF True] True by simp
    also have "\<dots> = take idx recs @ map (setClient p) (drop idx recs)"
      using True by (simp add: take_Suc_conv_app_nth Cons_nth_drop_Suc[symmetric])
    finally show ?thesis .
  next
    case False
    with 1(2) have "idx = length recs" by simp
    then show ?thesis by (simp add: setClient_loop.simps[of p "length recs" recs])
  qed
qed

lemma setClient_loop_map: "setClient_loop p 0 recs = map (setClient p) recs"
  using setClient_loop_eq[of 0 recs p] by simp

text \<open>\<^verbatim>\<open>Query\<close> on a logged-in client, with the URL written out.\<close>

lemma Query_logged_in:
  assumes "isLoggedIn (clients w p)"
  shows "Query e p q w =
     (case httpRequest e p ''GET''
         (if HasPrefix q ''/services/data'' then instanceURL (clients w p) @ q
          else instanceURL (clients w p) @ ''/services/data/v'' @ apiVersion (clients w p) @
               (if useToolingAPI (clients w p) then ''/tooling/query?q='' else ''/query?q='') @
               QueryEscape q) None w of
        (Panicked k, w') \<Rightarrow> (Panicked k, w')
      | (Returned (data, err), w') \<Rightarrow>
          (case err of
             Some er \<Rightarrow> (Returned (None, Some er), w')
           | None \<Rightarrow>
               (case json_Unmarshal_QueryResult e (bytes_of data) of
                  Inl er \<Rightarrow> (Returned (None, Some er), w')
                | Inr result \<Rightarrow>
                    (Returned
                       (Some (result\<lparr>Records := setClient_loop p 0 (Records result)\<rparr>),
                        None), w'))))"
proof (cases "HasPrefix q ''/services/data''")
  case True
  with assms show ?thesis
    unfolding Query_def Let_def
    by (simp only: if_True if_False not_True_eq_False Sprintf_cont)
next
  case False
  show ?thesis
  proof (cases "useToolingAPI (clients w p)")
    case True
    with assms \<open>\<not> HasPrefix q ''/services/data''\<close> show ?thesis
      unfolding Query_def Let_def
      by (simp only: if_True if_False not_True_eq_False Replace_query Sprintf_tooling)
  next
    case False
    with assms \<open>\<not> HasPrefix q ''/services/data''\<close> show ?thesis
      unfolding Query_def Let_def
      by (simp only: if_True if_False not_True_eq_False Sprintf_query)
  qed
qed

lemma Query_world:
  assumes "isLoggedIn (clients w p)"
  shows "snd (Query e p q w) =
     snd (httpRequest e p ''GET''
         (if HasPrefix q ''/services/data'' then instanceURL (clients w p) @ q
          else instanceURL (clients w p) @ ''/services/data/v'' @ apiVersion (clients w p) @
               (if useToolingAPI (clients w p) then ''/tooling/query?q='' else ''/query?q='') @
               QueryEscape q) None w)"
  by (simp only: Query_logged_in[OF assms] snd_after_exchange)

lemma Query_events:
  assumes "isLoggedIn (clients w p)"
  shows "events (snd (Query e p q w)) =
     (let c = clients w p;
          u = (if HasPrefix q ''/services/data'' then instanceURL c @ q
               else instanceURL c @ ''/services/data/v'' @ apiVersion c @
                    (if useToolingAPI c then ''/tooling/query?q='' else ''/query?q='') @
                    QueryEscape q)
      in events w @ EvNewRequest ''GET'' u #
           (case http_NewRequestWithContext e ''GET'' u of
              Some err \<Rightarrow> []
            | None \<Rightarrow> [EvDo \<lparr> req_method = ''GET'', req_url = u,
                         req_header = [(''Authorization'', ''Bearer '' @ sessionID c),
                                       (''Content-Type'', ''application/json'')],
                         req_body = None \<rparr>]))"
  unfolding Let_def by (simp only: Query_world[OF assms] httpRequest_world) simp

lemma Query_success:
  assumes "Query e p q w = (Returned (Some result, None), w')"
  shows "\<exists>data decoded. json_Unmarshal_QueryResult e data = Inr decoded \<and>
           result = decoded\<lparr>Records := map (setClient p) (Records decoded)\<rparr>"
proof -
  have li: "isLoggedIn (clients w p)"
  proof (rule ccontr)
    assume "\<not> isLoggedIn (clients w p)"
    then have "Query e p q w = (Returned (None, Some ErrAuthentication), w)"
      by (simp add: Query_def)
    with assms show False by simp
  qed
  from assms[unfolded Query_logged_in[OF li]]
  obtain data decoded where
    "json_Unmarshal_QueryResult e (bytes_of data) = Inr decoded"
    "result = decoded\<lparr>Records := map (setClient p) (Records decoded)\<rparr>"
    by (auto dest!: result_after_exchange simp: setClient_loop_map)
  then show ?thesis by blast
qed

section \<open>Lemmas on the sample environment\<close>

lemma sample_world_simps:
  "clients sample_world p = sample_client" "events sample_world = []"
  by (simp_all add: sample_world_def)

lemma sample_logged_in: "isLoggedIn (clients sample_world p)"
  by (simp add: isLoggedIn_def sample_world_def sample_client_def)

lemma sample_env_simps:
  "http_NewRequestWithContext sample_env m u = None"
  "httpClient_Do sample_env evs req =
     (Some \<lparr> StatusCode = 200, Body = sample_query_body, BodyErr = None \<rparr>, None)"
  "json_Unmarshal_QueryResult sample_env sample_query_body =
     Inr \<lparr> TotalSize = 2, Done = True, NextRecordsURL = [], Records = sample_records \<rparr>"
  by (simp_all add: sample_env_def)

lemma sample_httpRequest:
  "fst (httpRequest sample_env p m u b sample_world) = Returned (Some sample_query_body, None)"
  by (simp add: httpRequest_def Let_def sample_env_simps)

lemma sample_Query:
  "fst (Query sample_env 0 ''SELECT Id FROM Case'' sample_world) =
     Returned (Some \<lparr> TotalSize = 2, Done = True, NextRecordsURL = [],
        Records =
          [\<lparr> sobjClient = Some 0, sobjType = ''Case'', sobjID = ''500A'', sobjFields = [] \<rparr>,
           \<lparr> sobjClient = Some 0, sobjType = ''Case'', sobjID = ''500B'', sobjFields = [] \<rparr>] \<rparr>,
       None)"
proof -
  obtain r w' where h: "httpRequest sample_env 0 ''GET''
      (if HasPrefix ''SELECT Id FROM Case'' ''/services/data''
       then instanceURL (clients sample_world 0) @ ''SELECT Id FROM Case''
       else instanceURL (clients sample_world 0) @ ''/services/data/v'' @
            apiVersion (clients sample_world 0) @
            (if useToolingAPI (clients sample_world 0) then ''/tooling/query?q=''
             else ''/query?q='') @
            QueryEscape ''SELECT Id FROM Case'') None sample_world = (r, w')"
    by (rule prod.exhaust)
  then have r: "r = Returned (Some sample_query_body, None)"
    using sample_httpRequest[of 0 "''GET''" _ None] by (metis fst_conv)
  show ?thesis
    unfolding Query_logged_in[OF sample_logged_in] h r
    by (simp add: bytes_of_def sample_env_simps setClient_loop_map sample_records_def
        setClient_def)
qed

section \<open>Lemmas on the client state\<close>

lemma Query_clients: "clients (snd (Query e p q w)) = clients w"
proof (cases "isLoggedIn (clients w p)")
  case True
  then show ?thesis by (simp add: Query_world httpRequest_world)
next
  case False
  then show ?thesis by (simp add: Query_def)
qed

lemma ApexREST_clients: "clients (snd (ApexREST e p m path b w)) = clients w"
proof (cases "isLoggedIn (clients w p)")
  case True
  then have "snd (ApexREST e p m path b w) =
      snd (httpRequest e p m
        (Sprintf ''%s/%s'' [ArgS (instanceURL (clients w p)), ArgS path]) b w)"
    unfolding ApexREST_def Let_def
    by (simp only: if_False not_True_eq_False exchange_world)
  then show ?thesis by (simp add: httpRequest_world)
next
  case False
  then show ?thesis by (simp add: ApexREST_def)
qed

lemma ExecuteAnonymous_clients: "clients (snd (ExecuteAnonymous e p a w)) = clients w"
proof (cases "isLoggedIn (clients w p)")
  case True
  then have "snd (ExecuteAnonymous e p a w) =
      snd (httpRequest e p ''GET''
        (Sprintf ''%s/services/data/v%s/tooling/executeAnonymous/?anonymousBody=%s''
           [ArgS (instanceURL (clients w p)), ArgS (apiVersion (clients w p)),
            ArgS (QueryEscape a)])
        None w)"
    unfolding ExecuteAnonymous_def Let_def
    by (simp only: if_False not_True_eq_False snd_after_exchange)
  then show ?thesis by (simp add: httpRequest_world)
next
  case False
  then show ?thesis by (simp add: ExecuteAnonymous_def)
qed

lemma makeURL_clients:
  "clients (snd (makeURL p r w)) =
     (clients w)(p := (clients w p)\<lparr>apiVersion :=
        filter (\<lambda>c. c \<noteq> CHR ''v'') (apiVersion (clients w p))\<rparr>)"
  by (simp add: makeURL_def Let_def Replace_v)

text \<open>Only \<^verbatim>\<open>Tooling\<close> and \<^verbatim>\<open>UnTooling\<close> on the client itself change its flag.\<close>

lemma run_call_flag:
  assumes "c \<noteq> CallTooling p" "c \<noteq> CallUnTooling p"
  shows "useToolingAPI (clients (run_call e c w) p) = useToolingAPI (clients w p)"
  using assms
  by (cases c)
     (simp_all add: Query_clients ApexREST_clients ExecuteAnonymous_clients makeURL_clients
        Tooling_def UnTooling_def)

lemma run_calls_tooling_on:
  "CallUnTooling p \<notin> set cs \<Longrightarrow> useToolingAPI (clients w p) \<Longrightarrow>
     useToolingAPI (clients (run_calls e cs w) p)"
proof (induction cs arbitrary: w)
  case Nil
  then show ?case by simp
next
  case (Cons c cs)
  have "useToolingAPI (clients (run_call e c w) p)"
  proof (cases "c = CallTooling p")
    case True
    then show ?thesis by (simp add: Tooling_def)
  next
    case False
    with Cons.prems show ?thesis using run_call_flag[of c p e w] by auto
  qed
  with Cons show ?case by simp
qed

lemma run_calls_tooling_off:
  "CallTooling p \<notin> set cs \<Longrightarrow> \<not> useToolingAPI (clients w p) \<Longrightarrow>
     \<not> useToolingAPI (clients (run_calls e cs w) p)"
proof (induction cs arbitrary: w)
  case Nil
  then show ?case by simp
next
  case (Cons c cs)
  have "\<not> useToolingAPI (clients (run_call e c w) p)"
  proof (cases "c = CallUnTooling p")
    case True
    then show ?thesis by (simp add: UnTooling_def)
  next
    case False
    with Cons.prems show ?thesis using run_call_flag[of c p e w] by auto
  qed
  with Cons show ?case by simp
qed

lemma sample_tooling_clients:
  "clients (snd (Tooling 0 sample_world)) 0 = sample_client\<lparr>useToolingAPI := True\<rparr>"
  "events (snd (Tooling 0 sample_world)) = []"
  by (simp_all add: Tooling_def sample_world_def)

lemma sample_decoders:
  \<open>json_Unmarshal_jsonError sample_env ''[{"message":"X","errorCode":"Y"}]'' =
     Some [\<lparr> je_Message = ''X'', je_ErrorCode = ''Y'' \<rparr>]\<close>
  "json_Unmarshal_jsonError sample_env sample_xml_body = None"
  "xml_Unmarshal_xmlError sample_env sample_xml_body =
     Some \<lparr> xe_Message = ''Invalid username'', xe_ErrorCode = ''INVALID_LOGIN'' \<rparr>"
  "json_Unmarshal_jsonError sample_env ''Service Unavailable'' = None"
  "xml_Unmarshal_xmlError sample_env ''Service Unavailable'' = None"
  "json_Unmarshal_jsonError sample_env ''Service Unav'' = None"
  "xml_Unmarshal_xmlError sample_env ''Service Unav'' = None"
  by (simp_all add: sample_env_def sample_json_body_def sample_xml_body_def)

lemma itoa_samples: "itoa 500 = ''500''" "itoa 503 = ''503''"
  by code_simp+

lemma sample_fallback:
  "ParseSalesforceError sample_env 503 ''Service Unavailable'' =
     Returned (SFError \<lparr> Message = ''Service Unavailable'', HttpCode = 503, ErrorCode = [],
       ErrorMessage = [] \<rparr>)"
  by (simp add: ParseSalesforceError_def sample_decoders)

text \<open>A failed exchange ends \<^verbatim>\<open>httpRequest\<close> with what \<^verbatim>\<open>parseUhttpError\<close> makes
  of it.\<close>

lemma httpRequest_failure:
  assumes "http_NewRequestWithContext e m u = None"
    and "httpClient_Do e (events w @ [EvNewRequest m u])
           \<lparr> req_method = m, req_url = u,
             req_header = [(''Authorization'', ''Bearer '' @ sessionID (clients w p)),
                           (''Content-Type'', ''application/json'')],
             req_body = b \<rparr> = (resp, err)"
    and "err \<noteq> None \<or> (\<exists>r. resp = Some r \<and> (StatusCode r < 200 \<or> StatusCode r > 299))"
  shows "fst (httpRequest e p m u b w) =
     (case parseUhttpError e resp err of
        Panicked k \<Rightarrow> Panicked k
      | Returned x \<Rightarrow> Returned (None, x))"
  using assms unfolding httpRequest_def Let_def Sprintf_bearer
  by (auto split: option.splits outcome.splits)

section \<open>The query engine\<close>

text \<open>
  Claim C4. For every input string \<open>q\<close> passed to \<^verbatim>\<open>Query\<close>, the request that a
  logged-in client builds is a \<^verbatim>\<open>GET\<close> for this URL: when \<open>q\<close> begins with
  \<^verbatim>\<open>/services/data\<close> it is a continuation token and the URL is the instance URL
  followed by \<open>q\<close> as it is; otherwise the URL is the query endpoint
  \<^verbatim>\<open><instance>/services/data/v<version>/query?q=\<close>, or the tooling query endpoint
  \<^verbatim>\<open><instance>/services/data/v<version>/tooling/query?q=\<close> when the client's tooling
  flag is set, followed by \<open>q\<close> URL-escaped. When the request can be built it is sent,
  once, to that URL, and nothing else goes out. A client that is not logged in builds
  and sends nothing.
\<close>

theorem Query_disambiguation:
  "events (snd (Query e p q w)) =
     (let c = clients w p;
          u = (if HasPrefix q ''/services/data'' then instanceURL c @ q
               else instanceURL c @ ''/services/data/v'' @ apiVersion c @
                    (if useToolingAPI c then ''/tooling/query?q='' else ''/query?q='') @
                    QueryEscape q)
      in if isLoggedIn c
         then events w @ EvNewRequest ''GET'' u #
           (case http_NewRequestWithContext e ''GET'' u of
              Some err \<Rightarrow> []
            | None \<Rightarrow> [EvDo \<lparr> req_method = ''GET'', req_url = u,
                         req_header = [(''Authorization'', ''Bearer '' @ sessionID c),
                                       (''Content-Type'', ''application/json'')],
                         req_body = None \<rparr>])
         else events w)"
proof (cases "isLoggedIn (clients w p)")
  case True
  then show ?thesis using Query_events[OF True, of e q] by (simp add: Let_def)
next
  case False
  then show ?thesis by (simp add: Query_def Let_def)
qed

theorem Query_disambiguation_witness:
  "events (snd (Query sample_env 0 ''SELECT Id FROM Case'' sample_world)) =
     [EvNewRequest ''GET''
        ''https://na1.salesforce.com/services/data/v54.0/query?q=SELECT+Id+FROM+Case'',
      EvDo \<lparr> req_method = ''GET'',
             req_url =
               ''https://na1.salesforce.com/services/data/v54.0/query?q=SELECT+Id+FROM+Case'',
             req_header = [(''Authorization'', ''Bearer 00D5g000004!AQ0AQH''),
                           (''Content-Type'', ''application/json'')],
             req_body = None \<rparr>] \<and>
   events (snd (Query sample_env 0 ''/services/data/v54.0/query/01g5g-2000'' sample_world)) =
     [EvNewRequest ''GET'' ''https://na1.salesforce.com/services/data/v54.0/query/01g5g-2000'',
      EvDo \<lparr> req_method = ''GET'',
             req_url = ''https://na1.salesforce.com/services/data/v54.0/query/01g5g-2000'',
             req_header = [(''Authorization'', ''Bearer 00D5g000004!AQ0AQH''),
                           (''Content-Type'', ''application/json'')],
             req_body = None \<rparr>]"
proof -
  have li: "isLoggedIn sample_client"
    using sample_logged_in[of 0] by (simp add: sample_world_simps)
  have np: "\<not> HasPrefix ''SELECT Id FROM Case'' ''/services/data''"
    by (simp add: HasPrefix_def)
  have pp: "HasPrefix ''/services/data/v54.0/query/01g5g-2000'' ''/services/data''"
    by (simp add: HasPrefix_def)
  have a: "events (snd (Query sample_env 0 ''SELECT Id FROM Case'' sample_world)) =
     [EvNewRequest ''GET''
        ''https://na1.salesforce.com/services/data/v54.0/query?q=SELECT+Id+FROM+Case'',
      EvDo \<lparr> req_method = ''GET'',
             req_url =
               ''https://na1.salesforce.com/services/data/v54.0/query?q=SELECT+Id+FROM+Case'',
             req_header = [(''Authorization'', ''Bearer 00D5g000004!AQ0AQH''),
                           (''Content-Type'', ''application/json'')],
             req_body = None \<rparr>]"
    using Query_disambiguation [of sample_env 0 "''SELECT Id FROM Case''" sample_world]
    by (simp only: sample_world_simps Let_def li np if_True if_False QueryEscape_sample
        sample_env_simps)
       (simp add: sample_client_def)
  have b: "events (snd (Query sample_env 0 ''/services/data/v54.0/query/01g5g-2000''
       sample_world)) =
     [EvNewRequest ''GET'' ''https://na1.salesforce.com/services/data/v54.0/query/01g5g-2000'',
      EvDo \<lparr> req_method = ''GET'',
             req_url = ''https://na1.salesforce.com/services/data/v54.0/query/01g5g-2000'',
             req_header = [(''Authorization'', ''Bearer 00D5g000004!AQ0AQH''),
                           (''Content-Type'', ''application/json'')],
             req_body = None \<rparr>]"
    using Query_disambiguation [of sample_env 0 "''/services/data/v54.0/query/01g5g-2000''"
        sample_world]
    by (simp only: sample_world_simps Let_def li pp if_True if_False sample_env_simps)
       (simp add: sample_client_def)
  from a b show ?thesis by (rule conjI)
qed

text \<open>
  Claim C7. Whenever \<^verbatim>\<open>Query\<close> returns a result without an error, the result is
  the decoded response body with \<^verbatim>\<open>setClient\<close> applied to each of its records, so
  every record of the result's \<open>Records\<close> is bound to the client the query was
  issued on.
\<close>

theorem Query_rebinds_records:
  assumes "Query e p q w = (Returned (Some result, None), w')"
  shows "(\<exists>data decoded. json_Unmarshal_QueryResult e data = Inr decoded \<and>
            result = decoded\<lparr>Records := map (setClient p) (Records decoded)\<rparr>) \<and>
         (\<forall>r \<in> set (Records result). sobjClient r = Some p)"
proof -
  from Query_success[OF assms] obtain data decoded where
    d: "json_Unmarshal_QueryResult e data = Inr decoded"
       "result = decoded\<lparr>Records := map (setClient p) (Records decoded)\<rparr>" by blast
  then have "\<forall>r \<in> set (Records result). sobjClient r = Some p"
    by (auto simp: setClient_def)
  with d show ?thesis by blast
qed

theorem Query_rebinds_records_witness:
  "Query sample_env 0 ''SELECT Id FROM Case'' sample_world =
     (Returned (Some \<lparr> TotalSize = 2, Done = True, NextRecordsURL = [],
        Records =
          [\<lparr> sobjClient = Some 0, sobjType = ''Case'', sobjID = ''500A'', sobjFields = [] \<rparr>,
           \<lparr> sobjClient = Some 0, sobjType = ''Case'', sobjID = ''500B'', sobjFields = [] \<rparr>] \<rparr>,
       None), snd (Query sample_env 0 ''SELECT Id FROM Case'' sample_world)) \<and>
   sobjClient \<lparr> sobjClient = Some 0, sobjType = ''Case'', sobjID = ''500A'', sobjFields = [] \<rparr>
     = Some 0 \<and>
   map sobjClient sample_records = [None, None]"
proof -
  have q: "Query sample_env 0 ''SELECT Id FROM Case'' sample_world =
     (Returned (Some \<lparr> TotalSize = 2, Done = True, NextRecordsURL = [],
        Records =
          [\<lparr> sobjClient = Some 0, sobjType = ''Case'', sobjID = ''500A'', sobjFields = [] \<rparr>,
           \<lparr> sobjClient = Some 0, sobjType = ''Case'', sobjID = ''500B'', sobjFields = [] \<rparr>] \<rparr>,
       None), snd (Query sample_env 0 ''SELECT Id FROM Case'' sample_world))"
    using sample_Query by (simp add: prod_eq_iff)
  from Query_rebinds_records [OF q] q show ?thesis
    by (simp add: sample_records_def)
qed

text \<open>
  Claim C10. On a client whose session ID is the empty string, \<^verbatim>\<open>Query\<close>,
  \<^verbatim>\<open>ExecuteAnonymous\<close> and \<^verbatim>\<open>ApexREST\<close> each return a nil result together with
  \<^verbatim>\<open>ErrAuthentication\<close> and leave the state as it was: no request is built and none
  is sent.
\<close>

theorem not_logged_in_no_request:
  assumes "sessionID (clients w p) = []"
  shows "Query e p q w = (Returned (None, Some ErrAuthentication), w) \<and>
     ExecuteAnonymous e p apexBody w = (Returned (None, Some ErrAuthentication), w) \<and>
     ApexREST e p method path requestBody w = (Returned (None, Some ErrAuthentication), w)"
  using assms by (simp add: Query_def ExecuteAnonymous_def ApexREST_def isLoggedIn_def)

theorem not_logged_in_no_request_witness:
  "sessionID (clients (sample_world\<lparr>clients := \<lambda>p. sample_client\<lparr>sessionID := []\<rparr>\<rparr>) 0) = [] \<and>
   Query sample_env 0 ''SELECT Id FROM Case''
       (sample_world\<lparr>clients := \<lambda>p. sample_client\<lparr>sessionID := []\<rparr>\<rparr>) =
     (Returned (None, Some ErrAuthentication),
      sample_world\<lparr>clients := \<lambda>p. sample_client\<lparr>sessionID := []\<rparr>\<rparr>) \<and>
   events (snd (ApexREST sample_env 0 ''POST'' ''services/apexrest/my-custom-endpoint'' None
       (sample_world\<lparr>clients := \<lambda>p. sample_client\<lparr>sessionID := []\<rparr>\<rparr>))) = []"
proof -
  have h: "sessionID (clients (sample_world\<lparr>clients := \<lambda>p. sample_client\<lparr>sessionID := []\<rparr>\<rparr>) 0) = []"
    by simp
  show ?thesis
    using h not_logged_in_no_request [OF h, of sample_env "''SELECT Id FROM Case''" "[]"
        "''POST''" "''services/apexrest/my-custom-endpoint''" None]
    by (simp add: sample_world_simps)
qed

section \<open>The tooling mode\<close>

text \<open>
  Claim C8, as amended. The tooling flag is a mode of the client, not of a call. After
  \<^verbatim>\<open>Tooling()\<close> on a client and any calls that do not include \<^verbatim>\<open>UnTooling()\<close> on
  that client, a \<^verbatim>\<open>Query\<close> with a SOQL string (an input that does not begin with
  \<^verbatim>\<open>/services/data\<close>) builds its request for the tooling query endpoint; after
  \<^verbatim>\<open>UnTooling()\<close> and any calls that do not include \<^verbatim>\<open>Tooling()\<close> on that client,
  it builds it for the standard query endpoint. (A client that is not logged in builds
  no request in either mode.)
\<close>

theorem tooling_mode_sticky:
  assumes "\<not> HasPrefix q ''/services/data''"
  shows
    "(w' = run_calls e cs (snd (Tooling p w)) \<and> CallUnTooling p \<notin> set cs \<longrightarrow>
        events (snd (Query e p q w')) =
          (let c = clients w' p;
               u = instanceURL c @ ''/services/data/v'' @ apiVersion c @ ''/tooling/query?q='' @
                   QueryEscape q
           in if isLoggedIn c
              then events w' @ EvNewRequest ''GET'' u #
                (case http_NewRequestWithContext e ''GET'' u of
                   Some err \<Rightarrow> []
                 | None \<Rightarrow> [EvDo \<lparr> req_method = ''GET'', req_url = u,
                              req_header = [(''Authorization'', ''Bearer '' @ sessionID c),
                                            (''Content-Type'', ''application/json'')],
                              req_body = None \<rparr>])
              else events w')) \<and>
     (w' = run_calls e cs (UnTooling p w) \<and> CallTooling p \<notin> set cs \<longrightarrow>
        events (snd (Query e p q w')) =
          (let c = clients w' p;
               u = instanceURL c @ ''/services/data/v'' @ apiVersion c @ ''/query?q='' @
                   QueryEscape q
           in if isLoggedIn c
              then events w' @ EvNewRequest ''GET'' u #
                (case http_NewRequestWithContext e ''GET'' u of
                   Some err \<Rightarrow> []
                 | None \<Rightarrow> [EvDo \<lparr> req_method = ''GET'', req_url = u,
                              req_header = [(''Authorization'', ''Bearer '' @ sessionID c),
                                            (''Content-Type'', ''application/json'')],
                              req_body = None \<rparr>])
              else events w'))"
proof (cases "isLoggedIn (clients w' p)")
  case False
  then have ev: "events (snd (Query e p q w')) = events w'"
    by (simp add: Query_def)
  show ?thesis
    unfolding Let_def ev if_not_P[OF False] by simp
next
  case True
  show ?thesis
  proof (intro conjI impI)
    assume h: "w' = run_calls e cs (snd (Tooling p w)) \<and> CallUnTooling p \<notin> set cs"
    have "useToolingAPI (clients (snd (Tooling p w)) p)" by (simp add: Tooling_def)
    with h have flag: "useToolingAPI (clients w' p)" by (simp add: run_calls_tooling_on)
    show "events (snd (Query e p q w')) =
          (let c = clients w' p;
               u = instanceURL c @ ''/services/data/v'' @ apiVersion c @ ''/tooling/query?q='' @
                   QueryEscape q
           in if isLoggedIn c
              then events w' @ EvNewRequest ''GET'' u #
                (case http_NewRequestWithContext e ''GET'' u of
                   Some err \<Rightarrow> []
                 | None \<Rightarrow> [EvDo \<lparr> req_method = ''GET'', req_url = u,
                              req_header = [(''Authorization'', ''Bearer '' @ sessionID c),
                                            (''Content-Type'', ''application/json'')],
                              req_body = None \<rparr>])
              else events w')"
      by (simp only: Query_events[OF True] Let_def assms flag True if_True if_False)
  next
    assume h: "w' = run_calls e cs (UnTooling p w) \<and> CallTooling p \<notin> set cs"
    have "\<not> useToolingAPI (clients (UnTooling p w) p)" by (simp add: UnTooling_def)
    with h have flag: "\<not> useToolingAPI (clients w' p)" by (simp add: run_calls_tooling_off)
    show "events (snd (Query e p q w')) =
          (let c = clients w' p;
               u = instanceURL c @ ''/services/data/v'' @ apiVersion c @ ''/query?q='' @
                   QueryEscape q
           in if isLoggedIn c
              then events w' @ EvNewRequest ''GET'' u #
                (case http_NewRequestWithContext e ''GET'' u of
                   Some err \<Rightarrow> []
                 | None \<Rightarrow> [EvDo \<lparr> req_method = ''GET'', req_url = u,
                              req_header = [(''Authorization'', ''Bearer '' @ sessionID c),
                                            (''Content-Type'', ''application/json'')],
                              req_body = None \<rparr>])
              else events w')"
      by (simp only: Query_events[OF True] Let_def assms flag True if_True if_False)
  qed
qed

theorem tooling_mode_sticky_witness:
  "events (snd (Query sample_env 0 ''SELECT Id FROM Case''
       (run_calls sample_env [CallMakeURL 0 ''sobjects/Case'', CallTooling 1, CallUnTooling 1]
          (snd (Tooling 0 sample_world))))) =
     [EvNewRequest ''GET''
        ''https://na1.salesforce.com/services/data/v54.0/tooling/query?q=SELECT+Id+FROM+Case'',
      EvDo \<lparr> req_method = ''GET'',
             req_url =
               ''https://na1.salesforce.com/services/data/v54.0/tooling/query?q=SELECT+Id+FROM+Case'',
             req_header = [(''Authorization'', ''Bearer 00D5g000004!AQ0AQH''),
                           (''Content-Type'', ''application/json'')],
             req_body = None \<rparr>] \<and>
   events (snd (Query sample_env 0 ''SELECT Id FROM Case''
       (run_calls sample_env [CallMakeURL 0 ''sobjects/Case'', CallTooling 1, CallUnTooling 1]
          (UnTooling 0 (snd (Tooling 0 sample_world)))))) =
     [EvNewRequest ''GET''
        ''https://na1.salesforce.com/services/data/v54.0/query?q=SELECT+Id+FROM+Case'',
      EvDo \<lparr> req_method = ''GET'',
             req_url =
               ''https://na1.salesforce.com/services/data/v54.0/query?q=SELECT+Id+FROM+Case'',
             req_header = [(''Authorization'', ''Bearer 00D5g000004!AQ0AQH''),
                           (''Content-Type'', ''application/json'')],
             req_body = None \<rparr>]"
proof -
  let ?cs = "[CallMakeURL 0 ''sobjects/Case'', CallTooling 1, CallUnTooling 1]"
  let ?w1 = "run_calls sample_env ?cs (snd (Tooling 0 sample_world))"
  let ?w2 = "run_calls sample_env ?cs (UnTooling 0 (snd (Tooling 0 sample_world)))"
  have w1: "clients ?w1 0 = sample_client\<lparr>useToolingAPI := True\<rparr>" "events ?w1 = []"
    by (simp_all add: makeURL_def Let_def Replace_v Tooling_def UnTooling_def
        sample_world_def sample_client_def)
  have w2: "clients ?w2 0 = sample_client" "events ?w2 = []"
    by (simp_all add: makeURL_def Let_def Replace_v Tooling_def UnTooling_def
        sample_world_def sample_client_def)
  have li1: "isLoggedIn (clients ?w1 0)" and li2: "isLoggedIn (clients ?w2 0)"
    by (simp_all only: w1 w2) (simp_all add: isLoggedIn_def sample_client_def)
  have np: "\<not> HasPrefix ''SELECT Id FROM Case'' ''/services/data''"
    by (simp add: HasPrefix_def)
  have n1: "CallUnTooling 0 \<notin> set ?cs" and n2: "CallTooling 0 \<notin> set ?cs"
    by simp_all
  from tooling_mode_sticky [OF np, of ?w1 sample_env ?cs 0 sample_world] n1 li1
  have a: "events (snd (Query sample_env 0 ''SELECT Id FROM Case'' ?w1)) =
     [EvNewRequest ''GET''
        ''https://na1.salesforce.com/services/data/v54.0/tooling/query?q=SELECT+Id+FROM+Case'',
      EvDo \<lparr> req_method = ''GET'',
             req_url =
               ''https://na1.salesforce.com/services/data/v54.0/tooling/query?q=SELECT+Id+FROM+Case'',
             req_header = [(''Authorization'', ''Bearer 00D5g000004!AQ0AQH''),
                           (''Content-Type'', ''application/json'')],
             req_body = None \<rparr>]"
    by (simp only: w1 Let_def QueryEscape_sample sample_env_simps)
       (simp add: sample_client_def)
  from tooling_mode_sticky [OF np, of ?w2 sample_env ?cs 0 "snd (Tooling 0 sample_world)"] n2 li2
  have b: "events (snd (Query sample_env 0 ''SELECT Id FROM Case'' ?w2)) =
     [EvNewRequest ''GET''
        ''https://na1.salesforce.com/services/data/v54.0/query?q=SELECT+Id+FROM+Case'',
      EvDo \<lparr> req_method = ''GET'',
             req_url =
               ''https://na1.salesforce.com/services/data/v54.0/query?q=SELECT+Id+FROM+Case'',
             req_header = [(''Authorization'', ''Bearer 00D5g000004!AQ0AQH''),
                           (''Content-Type'', ''application/json'')],
             req_body = None \<rparr>]"
    by (simp only: w2 Let_def QueryEscape_sample sample_env_simps)
       (simp add: sample_client_def)
  from a b show ?thesis by (rule conjI)
qed

text \<open>
  Claim C8 as stated, that every \<^verbatim>\<open>Query\<close> after \<^verbatim>\<open>Tooling()\<close> targets the tooling
  query endpoint, fails for a continuation token: with the flag set, the token
  \<^verbatim>\<open>/services/data/v54.0/query/01g5g-2000\<close> is requested as it is, under the
  standard query path.
\<close>

theorem tooling_continuation_counterexample:
  "useToolingAPI (clients (snd (Tooling 0 sample_world)) 0) \<and>
   events (snd (Query sample_env 0 ''/services/data/v54.0/query/01g5g-2000''
       (snd (Tooling 0 sample_world)))) =
     [EvNewRequest ''GET'' ''https://na1.salesforce.com/services/data/v54.0/query/01g5g-2000'',
      EvDo \<lparr> req_method = ''GET'',
             req_url = ''https://na1.salesforce.com/services/data/v54.0/query/01g5g-2000'',
             req_header = [(''Authorization'', ''Bearer 00D5g000004!AQ0AQH''),
                           (''Content-Type'', ''application/json'')],
             req_body = None \<rparr>] \<and>
   \<not> HasPrefix ''https://na1.salesforce.com/services/data/v54.0/query/01g5g-2000''
       ''https://na1.salesforce.com/services/data/v54.0/tooling/query''"
proof -
  have li: "isLoggedIn (clients (snd (Tooling 0 sample_world)) 0)"
    by (simp add: sample_tooling_clients isLoggedIn_def sample_client_def)
  have pp: "HasPrefix ''/services/data/v54.0/query/01g5g-2000'' ''/services/data''"
    by (simp add: HasPrefix_def)
  have np: "\<not> HasPrefix ''https://na1.salesforce.com/services/data/v54.0/query/01g5g-2000''
       ''https://na1.salesforce.com/services/data/v54.0/tooling/query''"
    by (simp add: HasPrefix_def)
  show ?thesis
    using np Query_events [OF li, of sample_env "''/services/data/v54.0/query/01g5g-2000''"]
    by (simp add: pp Let_def sample_tooling_clients sample_env_simps sample_client_def)
qed

section \<open>What the operations write to the client\<close>

text \<open>
  Claim C9, as amended. \<^verbatim>\<open>Query\<close>, \<^verbatim>\<open>ExecuteAnonymous\<close> and \<^verbatim>\<open>ApexREST\<close> leave
  every field of every client as it was. \<^verbatim>\<open>Tooling()\<close> and \<^verbatim>\<open>UnTooling()\<close> write
  the flag \<^verbatim>\<open>useToolingAPI\<close> of their client, and \<^verbatim>\<open>makeURL\<close> writes its client's
  \<^verbatim>\<open>apiVersion\<close>, with every \<^verbatim>\<open>v\<close> removed; they change no other field and no other
  client.
\<close>

theorem client_state_frame:
  "clients (snd (Query e p q w)) = clients w \<and>
   clients (snd (ExecuteAnonymous e p a w)) = clients w \<and>
   clients (snd (ApexREST e p m path b w)) = clients w \<and>
   clients (snd (Tooling p w)) = (clients w)(p := (clients w p)\<lparr>useToolingAPI := True\<rparr>) \<and>
   clients (UnTooling p w) = (clients w)(p := (clients w p)\<lparr>useToolingAPI := False\<rparr>) \<and>
   clients (snd (makeURL p r w)) =
     (clients w)(p := (clients w p)\<lparr>apiVersion :=
        filter (\<lambda>c. c \<noteq> CHR ''v'') (apiVersion (clients w p))\<rparr>)"
  by (simp add: Query_clients ExecuteAnonymous_clients ApexREST_clients makeURL_clients
      Tooling_def UnTooling_def)

theorem client_state_frame_witness:
  "clients (snd (Query sample_env 0 ''SELECT Id FROM Case'' sample_world)) 0 = sample_client \<and>
   clients (snd (Tooling 0 sample_world)) 0 = sample_client\<lparr>useToolingAPI := True\<rparr> \<and>
   clients (snd (Tooling 0 sample_world)) 1 = sample_client"
  using client_state_frame [of sample_env 0 "''SELECT Id FROM Case''" sample_world]
  by (simp add: sample_world_simps)

text \<open>
  Claim C9 as stated, that no operation writes client state after the login, fails:
  \<^verbatim>\<open>Tooling()\<close> sets the flag of a client whose flag was off, and \<^verbatim>\<open>makeURL\<close> on a
  client with API version \<^verbatim>\<open>v54.0\<close> leaves it with \<^verbatim>\<open>54.0\<close>.
\<close>

theorem client_state_counterexample:
  "useToolingAPI (clients sample_world 0) = False \<and>
   useToolingAPI (clients (snd (Tooling 0 sample_world)) 0) = True \<and>
   apiVersion (clients (sample_world\<lparr>clients := \<lambda>p. sample_client\<lparr>apiVersion := ''v54.0''\<rparr>\<rparr>) 0)
     = ''v54.0'' \<and>
   apiVersion (clients (snd (makeURL 0 ''sobjects/Case''
       (sample_world\<lparr>clients := \<lambda>p. sample_client\<lparr>apiVersion := ''v54.0''\<rparr>\<rparr>))) 0) = ''54.0''"
  by (simp add: Tooling_def makeURL_def Let_def Replace_v sample_world_def sample_client_def)

section \<open>The error unifier\<close>

text \<open>
  The order of the decoders, on every body for which the JSON decoder gives at least
  one element or gives up: the first element of the JSON array when the body decodes as
  JSON, else the fault of the XML document when it decodes as XML, else the body as it
  is with an empty error code.
\<close>

lemma decoder_order:
  "(json_Unmarshal_jsonError e body = Some (j0 # js) \<longrightarrow>
      ParseSalesforceError e sc body = Returned (SFError \<lparr>
        Message = ''[simpleforce] Error. http code: '' @ itoa sc @ '' Error Message:  '' @
                  je_Message j0 @ '' Error Code: '' @ je_ErrorCode j0,
        HttpCode = sc, ErrorCode = je_ErrorCode j0, ErrorMessage = je_Message j0 \<rparr>)) \<and>
   (json_Unmarshal_jsonError e body = None \<and> xml_Unmarshal_xmlError e body = Some x \<longrightarrow>
      ParseSalesforceError e sc body = Returned (SFError \<lparr>
        Message = ''[simpleforce] Error. http code: '' @ itoa sc @ '' Error Message:  '' @
                  xe_Message x @ '' Error Code: '' @ xe_ErrorCode x,
        HttpCode = sc, ErrorCode = xe_ErrorCode x, ErrorMessage = xe_Message x \<rparr>)) \<and>
   (json_Unmarshal_jsonError e body = None \<and> xml_Unmarshal_xmlError e body = None \<longrightarrow>
      ParseSalesforceError e sc body = Returned (SFError \<lparr>
        Message = body, HttpCode = sc, ErrorCode = [], ErrorMessage = [] \<rparr>))"
  by (simp add: ParseSalesforceError_def Sprintf_error_format)

lemma decoder_order_witness:
  \<open>ParseSalesforceError sample_env 400 ''[{"message":"X","errorCode":"Y"}]'' =
     Returned (SFError \<lparr>
       Message = ''[simpleforce] Error. http code: 400 Error Message:  X Error Code: Y'',
       HttpCode = 400, ErrorCode = ''Y'', ErrorMessage = ''X'' \<rparr>) \<and>
   ParseSalesforceError sample_env 500 sample_xml_body =
     Returned (SFError \<lparr>
       Message = ''[simpleforce] Error. http code: 500 Error Message:  Invalid username Error Code: INVALID_LOGIN'',
       HttpCode = 500, ErrorCode = ''INVALID_LOGIN'', ErrorMessage = ''Invalid username'' \<rparr>) \<and>
   ParseSalesforceError sample_env 503 ''Service Unavailable'' =
     Returned (SFError \<lparr>
       Message = ''Service Unavailable'', HttpCode = 503, ErrorCode = [],
       ErrorMessage = [] \<rparr>)\<close>
  using
    decoder_order [of sample_env \<open>''[{"message":"X","errorCode":"Y"}]''\<close>
      "\<lparr> je_Message = ''X'', je_ErrorCode = ''Y'' \<rparr>" "[]" 400]
    decoder_order [of sample_env sample_xml_body _ _ 500
      "\<lparr> xe_Message = ''Invalid username'', xe_ErrorCode = ''INVALID_LOGIN'' \<rparr>"]
    decoder_order [of sample_env "''Service Unavailable''" _ _ 503]
  by (simp add: sample_decoders itoa_samples itoa_400)

text \<open>
  Claim C1. The claim says that every response body yields the unified error through
  the decoders in their order. On a body that the JSON decoder accepts as an empty
  array the code does not get that far: \<^verbatim>\<open>jsonError[0]\<close> is out of range,
  \<^verbatim>\<open>ParseSalesforceError\<close> panics, and neither the XML decoder nor the raw body is
  tried.
\<close>

theorem ParseSalesforceError_empty_array:
  assumes "json_Unmarshal_jsonError e responseBody = Some []"
  shows "ParseSalesforceError e statusCode responseBody = Panicked IndexOutOfRange"
  using assms by (simp add: ParseSalesforceError_def)

theorem ParseSalesforceError_empty_array_witness:
  "json_Unmarshal_jsonError sample_env ''[]'' = Some [] \<and>
   ParseSalesforceError sample_env 404 ''[]'' = Panicked IndexOutOfRange"
proof -
  have h: "json_Unmarshal_jsonError sample_env ''[]'' = Some []"
    by (simp add: sample_env_def)
  from ParseSalesforceError_empty_array [OF h] h show ?thesis by simp
qed

text \<open>
  Claim C2. The claim says that \<^verbatim>\<open>ParseSalesforceError\<close> returns a typed error for
  every body, empty JSON arrays and JSON \<^verbatim>\<open>null\<close> included. With status 400 the
  bodies \<^verbatim>\<open>[]\<close> and \<^verbatim>\<open>null\<close> make it panic; the empty body does fall back to the
  raw text.
\<close>

theorem ParseSalesforceError_crashes:
  "ParseSalesforceError sample_env 400 ''[]'' = Panicked IndexOutOfRange \<and>
   ParseSalesforceError sample_env 400 ''null'' = Panicked IndexOutOfRange \<and>
   ParseSalesforceError sample_env 400 [] =
     Returned (SFError \<lparr> Message = [], HttpCode = 400, ErrorCode = [], ErrorMessage = [] \<rparr>)"
  by (simp add: ParseSalesforceError_def sample_env_def sample_json_body_def
      sample_xml_body_def)

text \<open>
  Claim C3, as amended. Given a body that decodes as the JSON array
  \<^verbatim>\<open>[{"message":"X","errorCode":"Y"}]\<close> with status 400, the returned error has
  \<open>ErrorMessage\<close> X, \<open>ErrorCode\<close> Y and \<open>HttpCode\<close> 400, and its \<open>Message\<close>, the text
  of \<^verbatim>\<open>Error()\<close>, is
  \<^verbatim>\<open>[simpleforce] Error. http code: 400 Error Message:  X Error Code: Y\<close>. Given a
  body that decodes as an XML fault, \<open>ErrorMessage\<close> is the fault string and
  \<open>ErrorCode\<close> the fault code, and \<open>Message\<close> is formatted the same way. Given a body
  that neither decoder accepts, \<open>Message\<close> is the raw body and \<open>ErrorMessage\<close> and
  \<open>ErrorCode\<close> are empty.
\<close>

theorem error_fields:
  "(json_Unmarshal_jsonError e body = Some [\<lparr> je_Message = x, je_ErrorCode = y \<rparr>] \<longrightarrow>
      ParseSalesforceError e 400 body = Returned (SFError \<lparr>
        Message = ''[simpleforce] Error. http code: 400 Error Message:  '' @ x @
                  '' Error Code: '' @ y,
        HttpCode = 400, ErrorCode = y, ErrorMessage = x \<rparr>)) \<and>
   (json_Unmarshal_jsonError e body = None \<and>
    xml_Unmarshal_xmlError e body = Some \<lparr> xe_Message = fs, xe_ErrorCode = fc \<rparr> \<longrightarrow>
      ParseSalesforceError e sc body = Returned (SFError \<lparr>
        Message = ''[simpleforce] Error. http code: '' @ itoa sc @ '' Error Message:  '' @ fs @
                  '' Error Code: '' @ fc,
        HttpCode = sc, ErrorCode = fc, ErrorMessage = fs \<rparr>)) \<and>
   (json_Unmarshal_jsonError e body = None \<and> xml_Unmarshal_xmlError e body = None \<longrightarrow>
      ParseSalesforceError e sc body = Returned (SFError \<lparr>
        Message = body, HttpCode = sc, ErrorCode = [], ErrorMessage = [] \<rparr>))"
  by (simp add: ParseSalesforceError_def Sprintf_error_format itoa_400)

theorem error_fields_witness:
  \<open>ParseSalesforceError sample_env 400 ''[{"message":"X","errorCode":"Y"}]'' =
     Returned (SFError \<lparr>
       Message = ''[simpleforce] Error. http code: 400 Error Message:  X Error Code: Y'',
       HttpCode = 400, ErrorCode = ''Y'', ErrorMessage = ''X'' \<rparr>) \<and>
   ParseSalesforceError sample_env 500 sample_xml_body =
     Returned (SFError \<lparr>
       Message = ''[simpleforce] Error. http code: 500 Error Message:  Invalid username Error Code: INVALID_LOGIN'',
       HttpCode = 500, ErrorCode = ''INVALID_LOGIN'', ErrorMessage = ''Invalid username'' \<rparr>) \<and>
   ParseSalesforceError sample_env 503 ''Service Unavailable'' =
     Returned (SFError \<lparr>
       Message = ''Service Unavailable'', HttpCode = 503, ErrorCode = [],
       ErrorMessage = [] \<rparr>)\<close>
  using
    error_fields [of sample_env \<open>''[{"message":"X","errorCode":"Y"}]''\<close> "''X''" "''Y''"]
    error_fields [of sample_env sample_xml_body _ _ "''Invalid username''"
      "''INVALID_LOGIN''" 500]
    error_fields [of sample_env "''Service Unavailable''" _ _ _ _ 503]
  by (simp add: sample_decoders itoa_samples)

text \<open>
  Claim C3 as stated speaks of one message of the error, which is \<^verbatim>\<open>X\<close> for the JSON
  body and the raw body for an undecodable one. No field is both: for the JSON body the
  text of \<^verbatim>\<open>Error()\<close> is the formatted line and not \<^verbatim>\<open>X\<close>, and for the undecodable
  body \<open>ErrorMessage\<close> is empty and not the body.
\<close>

theorem error_message_counterexample:
  \<open>ParseSalesforceError sample_env 400 ''[{"message":"X","errorCode":"Y"}]'' =
     Returned (SFError \<lparr>
       Message = ''[simpleforce] Error. http code: 400 Error Message:  X Error Code: Y'',
       HttpCode = 400, ErrorCode = ''Y'', ErrorMessage = ''X'' \<rparr>) \<and>
   Error \<lparr> Message = ''[simpleforce] Error. http code: 400 Error Message:  X Error Code: Y'',
       HttpCode = 400, ErrorCode = ''Y'', ErrorMessage = ''X'' \<rparr> \<noteq> ''X'' \<and>
   ParseSalesforceError sample_env 503 ''Service Unavailable'' =
     Returned (SFError \<lparr>
       Message = ''Service Unavailable'', HttpCode = 503, ErrorCode = [],
       ErrorMessage = [] \<rparr>) \<and>
   ErrorMessage \<lparr> Message = ''Service Unavailable'', HttpCode = 503, ErrorCode = [],
       ErrorMessage = [] \<rparr> \<noteq> ''Service Unavailable''\<close>
  by (simp add: ParseSalesforceError_def sample_decoders Sprintf_error_format itoa_400
      Error_def)

text \<open>
  Claim C6, as amended. When no response was received, \<^verbatim>\<open>parseUhttpError\<close> returns
  the transport error as it is. When a response with a status outside 200..299 was
  received and its body was read to the end, the result joins the transport error, when
  there is one, with the error that \<^verbatim>\<open>ParseSalesforceError\<close> returns for the body.
  When reading the body fails, the result joins the transport error, when there is one,
  with the read error, and the body is not parsed.
\<close>

theorem parseUhttpError_joins:
  "parseUhttpError e None errHttp = Returned errHttp \<and>
   ((StatusCode r < 200 \<or> StatusCode r > 299) \<and> BodyErr r = None \<and>
    ParseSalesforceError e (StatusCode r) (Body r) = Returned sfErr \<longrightarrow>
      parseUhttpError e (Some r) errHttp =
        Returned (Some (Joined
          (case errHttp of None \<Rightarrow> [sfErr] | Some t \<Rightarrow> [t, sfErr])))) \<and>
   ((StatusCode r < 200 \<or> StatusCode r > 299) \<and> BodyErr r = Some readErr \<longrightarrow>
      parseUhttpError e (Some r) errHttp =
        Returned (Some (Joined
          (case errHttp of None \<Rightarrow> [readErr] | Some t \<Rightarrow> [t, readErr]))))"
  by (auto simp: parseUhttpError_def errors_Join_def List.map_filter_simps
      split: option.splits)

theorem parseUhttpError_joins_witness:
  "parseUhttpError sample_env None (Some (LibError ''dial tcp: i/o timeout'')) =
     Returned (Some (LibError ''dial tcp: i/o timeout'')) \<and>
   parseUhttpError sample_env
       (Some \<lparr> StatusCode = 503, Body = ''Service Unavailable'', BodyErr = None \<rparr>)
       (Some (LibError ''unavailable'')) =
     Returned (Some (Joined [LibError ''unavailable'',
       SFError \<lparr> Message = ''Service Unavailable'', HttpCode = 503, ErrorCode = [],
         ErrorMessage = [] \<rparr>])) \<and>
   parseUhttpError sample_env
       (Some \<lparr> StatusCode = 503, Body = ''Service Unavailable'', BodyErr = None \<rparr>) None =
     Returned (Some (Joined [
       SFError \<lparr> Message = ''Service Unavailable'', HttpCode = 503, ErrorCode = [],
         ErrorMessage = [] \<rparr>])) \<and>
   parseUhttpError sample_env
       (Some \<lparr> StatusCode = 503, Body = ''Service Unav'',
                BodyErr = Some (LibError ''unexpected EOF'') \<rparr>)
       (Some (LibError ''unavailable'')) =
     Returned (Some (Joined [LibError ''unavailable'', LibError ''unexpected EOF'']))"
  using
    parseUhttpError_joins [of sample_env "Some (LibError ''dial tcp: i/o timeout'')"]
    parseUhttpError_joins [of sample_env "Some (LibError ''unavailable'')"
      "\<lparr> StatusCode = 503, Body = ''Service Unavailable'', BodyErr = None \<rparr>"
      "SFError \<lparr> Message = ''Service Unavailable'', HttpCode = 503, ErrorCode = [],
         ErrorMessage = [] \<rparr>"]
    parseUhttpError_joins [of sample_env None
      "\<lparr> StatusCode = 503, Body = ''Service Unavailable'', BodyErr = None \<rparr>"
      "SFError \<lparr> Message = ''Service Unavailable'', HttpCode = 503, ErrorCode = [],
         ErrorMessage = [] \<rparr>"]
    parseUhttpError_joins [of sample_env "Some (LibError ''unavailable'')"
      "\<lparr> StatusCode = 503, Body = ''Service Unav'',
         BodyErr = Some (LibError ''unexpected EOF'') \<rparr>"
      _ "LibError ''unexpected EOF''"]
  by (simp add: sample_fallback)

text \<open>
  Claim C6 as stated, that a response with a status outside 200..299 always gives the
  join with the SalesforceError parsed from its body, fails when the body cannot be
  read to the end: the result joins the transport error with the read error, and holds
  no SalesforceError, though \<^verbatim>\<open>ParseSalesforceError\<close> has one for what was read.
\<close>

theorem join_counterexample:
  "parseUhttpError sample_env
       (Some \<lparr> StatusCode = 503, Body = ''Service Unav'',
                BodyErr = Some (LibError ''unexpected EOF'') \<rparr>)
       (Some (LibError ''unavailable'')) =
     Returned (Some (Joined [LibError ''unavailable'', LibError ''unexpected EOF''])) \<and>
   ParseSalesforceError sample_env 503 ''Service Unav'' =
     Returned (SFError \<lparr> Message = ''Service Unav'', HttpCode = 503, ErrorCode = [],
       ErrorMessage = [] \<rparr>)"
  by (simp add: parseUhttpError_def errors_Join_def List.map_filter_simps
      ParseSalesforceError_def sample_decoders)

section \<open>Preconditions of the record operations\<close>

text \<open>
  Claim C5. A CRUD operation on a record without a bound client or with an empty type,
  and a get, update or delete without a remote identifier (neither passed nor stored on
  the record), returns a nil Record and \<^verbatim>\<open>ErrNoTypeIdClientOrId\<close> and leaves the state
  as it was: the exchange with the server is not started.
\<close>

theorem crud_precondition:
  assumes "sobjClient obj = None \<or> sobjType obj = [] \<or>
           ((opr = Get \<or> opr = Update \<or> opr = Delete) \<and> crud_id obj ident = [])"
  shows "crud exchange opr obj ident w = (Returned (None, Some ErrNoTypeIdClientOrId), w)"
  using assms by (auto simp: crud_def crud_ready_def needs_id_def)

theorem crud_precondition_witness:
  "crud (\<lambda>opr obj ident w. (Returned (Some obj, None),
           w\<lparr>events := events w @ [EvNewRequest ''POST''
             ''https://na1.salesforce.com/services/data/v54.0/sobjects/'']\<rparr>))
      Create \<lparr> sobjClient = Some 0, sobjType = [], sobjID = [], sobjFields = [] \<rparr> None
      sample_world
     = (Returned (None, Some ErrNoTypeIdClientOrId), sample_world) \<and>
   crud (\<lambda>opr obj ident w. (Returned (Some obj, None),
           w\<lparr>events := events w @ [EvNewRequest ''GET''
             ''https://na1.salesforce.com/services/data/v54.0/sobjects/Case/'']\<rparr>))
      Get \<lparr> sobjClient = Some 0, sobjType = ''Case'', sobjID = [], sobjFields = [] \<rparr> None
      sample_world
     = (Returned (None, Some ErrNoTypeIdClientOrId), sample_world)"
  using
    crud_precondition [of
      "\<lparr> sobjClient = Some 0, sobjType = [], sobjID = [], sobjFields = [] \<rparr>" Create None
      "(\<lambda>opr obj ident w. (Returned (Some obj, None),
           w\<lparr>events := events w @ [EvNewRequest ''POST''
             ''https://na1.salesforce.com/services/data/v54.0/sobjects/'']\<rparr>))" sample_world]
    crud_precondition [of
      "\<lparr> sobjClient = Some 0, sobjType = ''Case'', sobjID = [], sobjFields = [] \<rparr>" Get None
      "(\<lambda>opr obj ident w. (Returned (Some obj, None),
           w\<lparr>events := events w @ [EvNewRequest ''GET''
             ''https://na1.salesforce.com/services/data/v54.0/sobjects/Case/'']\<rparr>))" sample_world]
  by (simp add: crud_id_def)

end
